theory Spec2Isabelle
  imports Complex_Main
begin

text \<open>
  A model of \<open>artnet_to_csv.py\<close>, which reads auction catalogue PDFs, cuts each
  one into entries at its horizontal separator lines, parses every entry into a
  record of labelled fields and writes the records as a table.

  The functions keep the names of the source. An uncaught Python exception is a
  value \<open>Inl e\<close> of a sum type and ends the computation it occurs in. What the
  program takes from its libraries is part of the model: the drawings and clipped
  page texts of PyMuPDF are data of a document, and \<open>re\<close>, \<open>datetime.strptime\<close>
  and the column handling of \<open>pandas\<close> are functions written after the libraries'
  behaviour.
\<close>

section \<open>Python strings\<close>

text \<open>
  A Python \<open>str\<close> is modelled as a \<open>string\<close> whose characters are the code points
  below 256. \<open>is_space\<close> is \<open>str.isspace\<close> on one character (it is also what \<open>\s\<close>
  matches in a \<open>str\<close> pattern): the code points 9 to 13, 28 to 32, 133 and 160.
\<close>

definition is_space :: "char \<Rightarrow> bool" where
  "is_space c = (of_char c \<in> {9, 10, 11, 12, 13, 28, 29, 30, 31, 32, 133, 160 :: nat})"

text \<open>\<open>s.strip()\<close>\<close>

definition strip :: "string \<Rightarrow> string" where
  "strip s = rev (dropWhile is_space (rev (dropWhile is_space s)))"

text \<open>\<open>s.startswith(p)\<close>\<close>

fun startswith :: "string \<Rightarrow> string \<Rightarrow> bool" where
  "startswith s [] = True"
| "startswith [] (p # ps) = False"
| "startswith (c # cs) (p # ps) = (c = p \<and> startswith cs ps)"

text \<open>\<open>s.split('\n')\<close>: always at least one piece.\<close>

fun split_nl :: "string \<Rightarrow> string list" where
  "split_nl [] = [[]]"
| "split_nl (c # cs) =
     (if c = CHR 0x0A then [] # split_nl cs
      else (case split_nl cs of
              [] \<Rightarrow> [[c]]
            | l # ls \<Rightarrow> (c # l) # ls))"

section \<open>Errors\<close>

text \<open>The exceptions the program can raise; \<open>KeyError\<close> carries the missing key.\<close>

datatype error = IndexError | UnboundLocalError | ValueError | KeyError string

section \<open>Dictionaries\<close>

text \<open>
  A Python \<open>dict\<close> keeps its keys in insertion order, and that order becomes the column
  order of the table, so a dictionary is an association list: \<open>d[k] = v\<close> replaces the
  value in place when \<open>k\<close> is present and appends the pair otherwise.
\<close>

type_synonym artwork = "(string \<times> string) list"

fun dict_set :: "string \<Rightarrow> string \<Rightarrow> artwork \<Rightarrow> artwork" where
  "dict_set k v [] = [(k, v)]"
| "dict_set k v ((k', v') # d) =
     (if k' = k then (k, v) # d else (k', v') # dict_set k v d)"

definition dict_keys :: "artwork \<Rightarrow> string list" where
  "dict_keys d = map fst d"

section \<open>Field parser (second half of \<open>get_artwork_info\<close>)\<close>

definition ARTNET_CATEGORIES :: "string list" where
  "ARTNET_CATEGORIES =
     [''Title'', ''Description'', ''Medium'', ''Year of Work'',
      ''Size'', ''Sale of'', ''Estimate'', ''Sold For'', ''Misc.'']"

text \<open>
  The \<open>for field in ARTNET_CATEGORIES: if line.startswith(field): ... break\<close> loop:
  the first label of the list that is a prefix of the line, if any.
\<close>

fun first_field :: "string list \<Rightarrow> string \<Rightarrow> string option" where
  "first_field [] line = None"
| "first_field (field # fields) line =
     (if startswith line field then Some field else first_field fields line)"

definition find_field :: "string \<Rightarrow> string option" where
  "find_field line = first_field ARTNET_CATEGORIES line"

text \<open>\<open>any(artist_line.startswith(field) for field in ARTNET_CATEGORIES)\<close>\<close>

definition is_labelled :: "string \<Rightarrow> bool" where
  "is_labelled s = list_ex (\<lambda>field. startswith s field) ARTNET_CATEGORIES"

text \<open>
  The artist lookback at a \<open>Title\<close> line. \<open>idx\<close> indexes \<open>lines\<close> (it comes from
  \<open>enumerate(lines)\<close>), so \<open>lines[idx-1]\<close> is in range when \<open>idx > 0\<close>.
\<close>

definition set_artist :: "string list \<Rightarrow> nat \<Rightarrow> string \<Rightarrow> artwork \<Rightarrow> artwork" where
  "set_artist lines idx line artwork =
     (if startswith line ''Title'' then
        (if idx > 0 then
           (let artist_line = strip (lines ! (idx - 1))
            in if \<not> is_labelled artist_line
               then dict_set ''Artist'' artist_line artwork
               else artwork)
         else artwork)
      else artwork)"

text \<open>The body of the \<open>for field\<close> loop when \<open>field\<close> matches: the value after the label.\<close>

definition field_value :: "string \<Rightarrow> string \<Rightarrow> string" where
  "field_value field line =
     (let v = strip (drop (length field) line)
      in if startswith v '':'' then strip (drop 1 v) else v)"

text \<open>
  One iteration of \<open>for idx, line in enumerate(lines)\<close>. The state is the dictionary
  and \<open>current_field\<close> (\<open>None\<close> until a label has matched).
\<close>

fun process_line ::
  "string list \<Rightarrow> nat \<times> string \<Rightarrow> artwork \<times> string option \<Rightarrow> artwork \<times> string option" where
  "process_line lines (idx, raw) (artwork, current_field) =
     (let line = strip raw;
          artwork1 = set_artist lines idx line artwork
      in (case find_field line of
            Some field \<Rightarrow> (dict_set field (field_value field line) artwork1, Some field)
          | None \<Rightarrow>
              (case current_field of
                 None \<Rightarrow> (artwork1, current_field)
               | Some cf \<Rightarrow>
                   (if cf \<noteq> [] then
                      (case map_of artwork1 cf of
                         None \<Rightarrow> (artwork1, current_field)
                       | Some v \<Rightarrow> (dict_set cf (v @ '' '' @ line) artwork1, current_field))
                    else (artwork1, current_field)))))"

text \<open>
  Lines 80 to 107: \<open>artwork\<close> is bound only inside \<open>if text:\<close>, so \<open>return artwork\<close>
  raises \<open>UnboundLocalError\<close> when \<open>text\<close> is empty.
\<close>

definition parse_text :: "string \<Rightarrow> error + artwork" where
  "parse_text text =
     (if text \<noteq> [] then
        (let lines = split_nl text
         in Inr (fst (fold (process_line lines) (enumerate 0 lines) ([], None))))
      else Inl UnboundLocalError)"

section \<open>Documents\<close>

text \<open>
  What the program reads of a PyMuPDF document. Coordinates are Python floats; they are
  modelled as reals, so the subtraction in the height test is exact.

  A drawn rectangle carries the three attributes of \<open>fitz.Rect\<close> that the program
  reads: \<open>y0\<close>, \<open>y1\<close> and the \<open>width\<close> property as the library reports it. An
  item of a drawing is a tuple whose first component is its tag; only the tag \<open>'re'\<close>
  has a rectangle as second component.
\<close>

record drawn_rect =
  y0 :: real
  y1 :: real
  width :: real

datatype item = Re drawn_rect | Line | Curve | Quad

record drawing =
  items :: "item list"

text \<open>
  A clip rectangle built by \<open>fitz.Rect(x0, y0, x1, y1)\<close>, and a page: its drawings,
  the size of \<open>page.rect\<close>, and \<open>page.get_text("text", clip=...)\<close> as a function of
  the clip (\<open>None\<close> when no clip is given).
\<close>

record clip =
  left :: real
  top :: real
  right :: real
  bottom :: real

record pdf_page =
  drawings :: "drawing list"
  page_width :: real
  page_height :: real
  get_text :: "clip option \<Rightarrow> string"

type_synonym document = "pdf_page list"

record separator =
  page :: nat
  y :: real

text \<open>\<open>doc[page_num]\<close>: a page number past the last page raises \<open>IndexError\<close>.\<close>

definition get_page :: "document \<Rightarrow> nat \<Rightarrow> error + pdf_page" where
  "get_page doc n = (if n < length doc then Inr (doc ! n) else Inl IndexError)"

section \<open>Separator locator: \<open>find_artnet_separators\<close>\<close>

text \<open>
  The inner loop \<open>for drawing in drawings\<close>. \<open>drawing['items'][0]\<close> raises
  \<open>IndexError\<close> on a drawing with no item.
\<close>

fun scan_drawings :: "nat \<Rightarrow> drawing list \<Rightarrow> separator list \<Rightarrow> error + separator list" where
  "scan_drawings page_num [] separators = Inr separators"
| "scan_drawings page_num (d # ds) separators =
     (case items d of
        [] \<Rightarrow> Inl IndexError
      | it # _ \<Rightarrow>
          (case it of
             Re rect \<Rightarrow>
               (if \<bar>y1 rect - y0 rect\<bar> < 1 \<and> width rect > 100
                then scan_drawings page_num ds
                       (separators @ [\<lparr>page = page_num, y = y0 rect\<rparr>])
                else scan_drawings page_num ds separators)
           | _ \<Rightarrow> scan_drawings page_num ds separators))"

text \<open>The outer loop \<open>for page_num in range(len(doc))\<close>, from page \<open>page_num\<close> on.\<close>

fun scan_pages :: "nat \<Rightarrow> pdf_page list \<Rightarrow> separator list \<Rightarrow> error + separator list" where
  "scan_pages page_num [] separators = Inr separators"
| "scan_pages page_num (p # ps) separators =
     (case scan_drawings page_num (drawings p) separators of
        Inl e \<Rightarrow> Inl e
      | Inr separators' \<Rightarrow> scan_pages (Suc page_num) ps separators')"

definition find_artnet_separators :: "document \<Rightarrow> error + separator list" where
  "find_artnet_separators doc =
     (case scan_pages 0 doc [] of
        Inl e \<Rightarrow> Inl e
      | Inr separators \<Rightarrow> Inr (filter (\<lambda>sep. y sep > 50) separators))"

section \<open>Region text extractor (first half of \<open>get_artwork_info\<close>)\<close>

text \<open>The loop \<open>for page_num in range(start_sep['page'] + 1, end_sep['page'])\<close>.\<close>

fun middle_pages :: "document \<Rightarrow> nat list \<Rightarrow> string \<Rightarrow> error + string" where
  "middle_pages doc [] text = Inr text"
| "middle_pages doc (page_num # rest) text =
     (case get_page doc page_num of
        Inl e \<Rightarrow> Inl e
      | Inr middle_page \<Rightarrow>
          middle_pages doc rest (text @ [CHR 0x0A] @ strip (get_text middle_page None)))"

text \<open>Lines 55 to 77: the value of \<open>text\<close> before the parsing starts.\<close>

definition region_text :: "document \<Rightarrow> separator \<Rightarrow> separator \<Rightarrow> error + string" where
  "region_text doc start_sep end_sep =
     (if page start_sep = page end_sep then
        (case get_page doc (page start_sep) of
           Inl e \<Rightarrow> Inl e
         | Inr pg \<Rightarrow>
             Inr (strip (get_text pg
                    (Some \<lparr>left = 0, top = y start_sep,
                           right = page_width pg, bottom = y end_sep\<rparr>))))
      else
        (case get_page doc (page start_sep) of
           Inl e \<Rightarrow> Inl e
         | Inr first_page \<Rightarrow>
             (case middle_pages doc [page start_sep + 1 ..< page end_sep]
                     (strip (get_text first_page
                        (Some \<lparr>left = 0, top = y start_sep,
                               right = page_width first_page,
                               bottom = page_height first_page\<rparr>))) of
                Inl e \<Rightarrow> Inl e
              | Inr text \<Rightarrow>
                  (if page start_sep \<noteq> page end_sep then
                     (case get_page doc (page end_sep) of
                        Inl e \<Rightarrow> Inl e
                      | Inr last_page \<Rightarrow>
                          Inr (text @ [CHR 0x0A] @
                               strip (get_text last_page
                                 (Some \<lparr>left = 0, top = 0,
                                        right = page_width last_page,
                                        bottom = y end_sep\<rparr>))))
                   else Inr text))))"

definition get_artwork_info :: "document \<Rightarrow> separator \<Rightarrow> separator \<Rightarrow> error + artwork" where
  "get_artwork_info doc start_sep end_sep =
     (case region_text doc start_sep end_sep of
        Inl e \<Rightarrow> Inl e
      | Inr text \<Rightarrow> parse_text text)"

section \<open>Pipeline driver: the loops of \<open>main\<close>\<close>

text \<open>
  \<open>for i in range(len(separators) - 1)\<close>, over the list of indices. An exception
  raised by \<open>get_artwork_info\<close> is not caught and ends the run.
\<close>

fun run_pairs ::
  "document \<Rightarrow> separator list \<Rightarrow> nat list \<Rightarrow> artwork list \<Rightarrow> error + artwork list" where
  "run_pairs doc separators [] results = Inr results"
| "run_pairs doc separators (i # is) results =
     (case get_artwork_info doc (separators ! i) (separators ! (i + 1)) of
        Inl e \<Rightarrow> Inl e
      | Inr artwork \<Rightarrow> run_pairs doc separators is (results @ [artwork]))"

text \<open>
  The body of \<open>for file in pdf_files\<close> for one opened document. With no separator
  \<open>len(separators) - 1\<close> is \<open>-1\<close> and the range is empty, as \<open>[0..<0 - 1]\<close> is.
\<close>

definition process_document :: "document \<Rightarrow> artwork list \<Rightarrow> error + artwork list" where
  "process_document doc results =
     (case find_artnet_separators doc of
        Inl e \<Rightarrow> Inl e
      | Inr separators \<Rightarrow>
          run_pairs doc separators [0 ..< length separators - 1] results)"

fun process_files :: "document list \<Rightarrow> artwork list \<Rightarrow> error + artwork list" where
  "process_files [] results = Inr results"
| "process_files (doc # docs) results =
     (case process_document doc results of
        Inl e \<Rightarrow> Inl e
      | Inr results' \<Rightarrow> process_files docs results')"

section \<open>Regular expressions\<close>

text \<open>
  The part of Python's \<open>re\<close> that the program's patterns (and the pattern that
  \<open>strptime\<close> builds from its format) use. A pattern is a list of nodes matched left
  to right by backtracking, as the \<open>re\<close> engine does: a greedy repetition tries the
  longest run first, a lazy one the shortest, an alternation its branches in order,
  and the first way to match the whole list is the result.

  Character sets: \<open>Dot\<close> is \<open>.\<close> (anything but a newline), \<open>Ws\<close> is \<open>\s\<close>,
  \<open>Digit\<close> is \<open>\d\<close>, \<open>Ch c\<close> a literal, \<open>Ci c\<close> an ASCII letter under
  \<open>re.IGNORECASE\<close>, \<open>Cls\<close> a bracketed set of ranges and \<open>\s\<close>.
\<close>

datatype citem = Range char char | WsItem

datatype cset = Dot | Ws | Digit | Ch char | Ci char | Cls "citem list"

definition ascii_lower :: "char \<Rightarrow> char" where
  "ascii_lower c =
     (if 65 \<le> (of_char c :: nat) \<and> (of_char c :: nat) \<le> 90
      then char_of (of_char c + 32 :: nat) else c)"

fun in_citem :: "citem \<Rightarrow> char \<Rightarrow> bool" where
  "in_citem (Range a b) c =
     ((of_char a :: nat) \<le> of_char c \<and> (of_char c :: nat) \<le> of_char b)"
| "in_citem WsItem c = is_space c"

fun in_cset :: "cset \<Rightarrow> char \<Rightarrow> bool" where
  "in_cset Dot c = (c \<noteq> CHR 0x0A)"
| "in_cset Ws c = is_space c"
| "in_cset Digit c = (48 \<le> (of_char c :: nat) \<and> (of_char c :: nat) \<le> 57)"
| "in_cset (Ch a) c = (c = a)"
| "in_cset (Ci a) c = (ascii_lower c = ascii_lower a)"
| "in_cset (Cls its) c = list_ex (\<lambda>it. in_citem it c) its"

text \<open>
  Nodes: one character of a set, \<open>*\<close>, \<open>*?\<close> and \<open>+\<close> on a set, an alternation
  whose branches are sequences of sets, the start and the end of a capture group,
  \<open>^\<close> and \<open>$\<close> (without \<open>re.MULTILINE\<close>: \<open>$\<close> matches at the end of the string
  and before a newline that ends it).
\<close>

datatype node =
    One cset | Star cset | LazyStar cset | Plus cset
  | Alt "cset list list" | GOpen nat | GClose nat | Bos | Eos

text \<open>A branch of an alternation: the rest of the string after it, if it matches.\<close>

fun match_seq :: "cset list \<Rightarrow> string \<Rightarrow> string option" where
  "match_seq [] s = Some s"
| "match_seq (c # cs) [] = None"
| "match_seq (c # cs) (x # xs) = (if in_cset c x then match_seq cs xs else None)"

type_synonym marks = "(nat \<times> nat) list"

fun node_size :: "node \<Rightarrow> nat" where
  "node_size (Alt alts) = Suc (length alts)"
| "node_size _ = 1"

text \<open>
  \<open>rmatch ns s i os cs\<close> matches the nodes \<open>ns\<close> against \<open>s\<close>, the part of the
  subject string from position \<open>i\<close> on; \<open>os\<close> and \<open>cs\<close> hold the positions where
  groups were opened and closed. The result is the marks and the end position of the
  first match in backtracking order.
\<close>

function rmatch ::
  "node list \<Rightarrow> string \<Rightarrow> nat \<Rightarrow> marks \<Rightarrow> marks \<Rightarrow> (marks \<times> marks \<times> nat) option" where
  "rmatch [] s i os cs = Some (os, cs, i)"
| "rmatch (One c # ns) s i os cs =
     (case s of
        [] \<Rightarrow> None
      | x # xs \<Rightarrow> if in_cset c x then rmatch ns xs (Suc i) os cs else None)"
| "rmatch (Star c # ns) s i os cs =
     (case s of
        [] \<Rightarrow> rmatch ns s i os cs
      | x # xs \<Rightarrow>
          if in_cset c x then
            (case rmatch (Star c # ns) xs (Suc i) os cs of
               Some r \<Rightarrow> Some r
             | None \<Rightarrow> rmatch ns s i os cs)
          else rmatch ns s i os cs)"
| "rmatch (LazyStar c # ns) s i os cs =
     (case rmatch ns s i os cs of
        Some r \<Rightarrow> Some r
      | None \<Rightarrow>
          (case s of
             [] \<Rightarrow> None
           | x # xs \<Rightarrow>
               if in_cset c x then rmatch (LazyStar c # ns) xs (Suc i) os cs else None))"
| "rmatch (Plus c # ns) s i os cs =
     (case s of
        [] \<Rightarrow> None
      | x # xs \<Rightarrow> if in_cset c x then rmatch (Star c # ns) xs (Suc i) os cs else None)"
| "rmatch (Alt [] # ns) s i os cs = None"
| "rmatch (Alt (a # as) # ns) s i os cs =
     (case match_seq a s of
        None \<Rightarrow> rmatch (Alt as # ns) s i os cs
      | Some s' \<Rightarrow>
          (case rmatch ns s' (i + length a) os cs of
             Some r \<Rightarrow> Some r
           | None \<Rightarrow> rmatch (Alt as # ns) s i os cs))"
| "rmatch (GOpen g # ns) s i os cs = rmatch ns s i ((g, i) # os) cs"
| "rmatch (GClose g # ns) s i os cs = rmatch ns s i os ((g, i) # cs)"
| "rmatch (Bos # ns) s i os cs = (if i = 0 then rmatch ns s i os cs else None)"
| "rmatch (Eos # ns) s i os cs =
     (if s = [] \<or> s = [CHR 0x0A] then rmatch ns s i os cs else None)"
  by pat_completeness auto

lemma match_seq_length: "match_seq a s = Some s' \<Longrightarrow> length s' \<le> length s"
  by (induction a s rule: match_seq.induct) (auto split: if_splits)

termination rmatch
  by (relation "(\<lambda>(ns, s, i, os, cs). length s) <*mlex*>
                measure (\<lambda>(ns, s, i, os, cs). sum_list (map node_size ns))")
     (auto simp: wf_mlex mlex_less mlex_leq dest: match_seq_length)

text \<open>\<open>match.group(g)\<close> for a group that took part in the match.\<close>

definition match_group :: "string \<Rightarrow> marks \<Rightarrow> marks \<Rightarrow> nat \<Rightarrow> string" where
  "match_group s os cs g =
     (case map_of os g of
        None \<Rightarrow> []
      | Some b \<Rightarrow>
          (case map_of cs g of
             None \<Rightarrow> []
           | Some e \<Rightarrow> take (e - b) (drop b s)))"

text \<open>\<open>re.match(pattern, s)\<close>: a match starting at position 0.\<close>

definition re_match :: "node list \<Rightarrow> string \<Rightarrow> (marks \<times> marks \<times> nat) option" where
  "re_match pattern s = rmatch pattern s 0 [] []"

text \<open>\<open>bool(re.search(pattern, s))\<close>: a match starting at some position from \<open>i\<close> on.\<close>

fun re_search :: "node list \<Rightarrow> string \<Rightarrow> nat \<Rightarrow> bool" where
  "re_search pattern [] i = (rmatch pattern [] i [] [] \<noteq> None)"
| "re_search pattern (x # xs) i =
     (rmatch pattern (x # xs) i [] [] \<noteq> None \<or> re_search pattern xs (Suc i))"

text \<open>
  \<open>re.sub(pattern, '', s)\<close>: every match, found from left to right, is deleted; where
  there is no match, or only an empty one, the character is kept.
\<close>

function re_sub_empty :: "node list \<Rightarrow> string \<Rightarrow> nat \<Rightarrow> string" where
  "re_sub_empty pattern [] i = []"
| "re_sub_empty pattern (x # xs) i =
     (case rmatch pattern (x # xs) i [] [] of
        None \<Rightarrow> x # re_sub_empty pattern xs (Suc i)
      | Some (os, cs, e) \<Rightarrow>
          if e \<le> i then x # re_sub_empty pattern xs (Suc i)
          else re_sub_empty pattern (drop (e - i) (x # xs)) e)"
  by pat_completeness auto

termination re_sub_empty
  by (relation "measure (\<lambda>(pattern, s, i). length s)") auto

section \<open>\<open>datetime.strptime\<close> with the format \<open>"%A, %B %d, %Y"\<close>\<close>

text \<open>
  The library function under the C (English) locale. \<open>strptime\<close> turns the format into
  the pattern \<open>(?P<A>...),\s+(?P<B>...)\s+(?P<d>...),\s+(?P<Y>\d\d\d\d)\<close>, compiled
  with \<open>re.IGNORECASE\<close>; the names of an alternation are ordered by decreasing
  length. Groups 1 to 4 stand for \<open>A\<close>, \<open>B\<close>, \<open>d\<close> and \<open>Y\<close>.
\<close>

record date =
  year :: nat
  month :: nat
  day :: nat

definition f_month :: "string list" where
  "f_month = ['''', ''january'', ''february'', ''march'', ''april'', ''may'', ''june'',
     ''july'', ''august'', ''september'', ''october'', ''november'', ''december'']"

definition weekday_re :: "string list" where
  "weekday_re = [''wednesday'', ''thursday'', ''saturday'', ''tuesday'',
     ''monday'', ''friday'', ''sunday'']"

definition month_re :: "string list" where
  "month_re = [''september'', ''february'', ''november'', ''december'', ''january'',
     ''october'', ''august'', ''march'', ''april'', ''june'', ''july'', ''may'']"

text \<open>The directive \<open>%d\<close> is \<open>3[0-1]|[1-2]\d|0[1-9]|[1-9]| [1-9]\<close>.\<close>

definition day_re :: "cset list list" where
  "day_re =
     [[Ch CHR ''3'', Cls [Range CHR ''0'' CHR ''1'']],
      [Cls [Range CHR ''1'' CHR ''2''], Digit],
      [Ch CHR ''0'', Cls [Range CHR ''1'' CHR ''9'']],
      [Cls [Range CHR ''1'' CHR ''9'']],
      [Ch CHR '' '', Cls [Range CHR ''1'' CHR ''9'']]]"

definition strptime_pattern :: "node list" where
  "strptime_pattern =
     [GOpen 1, Alt (map (map Ci) weekday_re), GClose 1, One (Ch CHR '',''), Plus Ws,
      GOpen 2, Alt (map (map Ci) month_re), GClose 2, Plus Ws,
      GOpen 3, Alt day_re, GClose 3, One (Ch CHR '',''), Plus Ws,
      GOpen 4, One Digit, One Digit, One Digit, One Digit, GClose 4]"

text \<open>\<open>int(s)\<close> on a string of decimal digits, with surrounding whitespace allowed.\<close>

definition py_int :: "string \<Rightarrow> nat" where
  "py_int s = foldl (\<lambda>n c. 10 * n + (of_char c - 48)) 0 (strip s)"

text \<open>\<open>xs.index(x)\<close>; \<open>None\<close> where Python raises \<open>ValueError\<close>.\<close>

fun list_index :: "string list \<Rightarrow> string \<Rightarrow> nat option" where
  "list_index [] x = None"
| "list_index (z # zs) x =
     (if z = x then Some 0 else map_option Suc (list_index zs x))"

definition is_leap :: "nat \<Rightarrow> bool" where
  "is_leap yr = (yr mod 4 = 0 \<and> (yr mod 100 \<noteq> 0 \<or> yr mod 400 = 0))"

definition days_in_month :: "nat \<Rightarrow> nat \<Rightarrow> nat" where
  "days_in_month yr m =
     (if m = 2 then (if is_leap yr then 29 else 28)
      else if m \<in> {4, 6, 9, 11} then 30 else 31)"

text \<open>
  A string that the pattern does not match, or does not match to its end, and a date
  that does not exist (year 0, 30 February) raise \<open>ValueError\<close>. The weekday name is
  matched but not compared with the date.
\<close>

definition strptime :: "string \<Rightarrow> error + date" where
  "strptime data_string =
     (case re_match strptime_pattern data_string of
        None \<Rightarrow> Inl ValueError
      | Some (os, cs, e) \<Rightarrow>
          if length data_string \<noteq> e then Inl ValueError
          else
            (case list_index f_month (map ascii_lower (match_group data_string os cs 2)) of
               None \<Rightarrow> Inl ValueError
             | Some m \<Rightarrow>
                 (let yr = py_int (match_group data_string os cs 4);
                      d = py_int (match_group data_string os cs 3)
                  in if 1 \<le> yr \<and> 1 \<le> m \<and> m \<le> 12 \<and> 1 \<le> d \<and> d \<le> days_in_month yr m
                     then Inr \<lparr>year = yr, month = m, day = d\<rparr>
                     else Inl ValueError)))"

section \<open>Sale-field decomposer: \<open>parse_sale_of_column\<close>\<close>

text \<open>The \<open>pd.Series\<close> the function returns.\<close>

record sale =
  auction_house :: "string option"
  sale_date :: "date option"
  lot_number :: "string option"
  is_online :: bool

definition fallback :: sale where
  "fallback = \<lparr>auction_house = None, sale_date = None, lot_number = None, is_online = False\<rparr>"

text \<open>\<open>^(.*?):\s*(.*?)\s*\[(Lot\s*[0-9A-Za-z\s]+)\](.*?)$\<close>\<close>

definition sale_pattern :: "node list" where
  "sale_pattern =
     [Bos, GOpen 1, LazyStar Dot, GClose 1, One (Ch CHR '':''), Star Ws,
      GOpen 2, LazyStar Dot, GClose 2, Star Ws, One (Ch CHR ''[''),
      GOpen 3, One (Ch CHR ''L''), One (Ch CHR ''o''), One (Ch CHR ''t''), Star Ws,
      Plus (Cls [Range CHR ''0'' CHR ''9'', Range CHR ''A'' CHR ''Z'',
                 Range CHR ''a'' CHR ''z'', WsItem]),
      GClose 3, One (Ch CHR '']''), GOpen 4, LazyStar Dot, GClose 4, Eos]"

text \<open>\<open>online\<close> under \<open>re.IGNORECASE\<close>, and \<open>Lot\s*\<close>.\<close>

definition online_pattern :: "node list" where
  "online_pattern = map (\<lambda>c. One (Ci c)) ''online''"

definition lot_pattern :: "node list" where
  "lot_pattern = [One (Ch CHR ''L''), One (Ch CHR ''o''), One (Ch CHR ''t''), Star Ws]"

text \<open>
  The body of the \<open>try\<close> block on \<open>str(entry)\<close>: \<open>Inl\<close> is an exception raised in
  it, which only \<open>strptime\<close> does.
\<close>

definition parse_sale_try :: "string \<Rightarrow> error + sale" where
  "parse_sale_try s =
     (case re_match sale_pattern s of
        None \<Rightarrow> Inr fallback
      | Some (os, cs, e) \<Rightarrow>
          (let auction_house = match_group s os cs 1;
               date_str = match_group s os cs 2;
               lot_number = match_group s os cs 3;
               description = match_group s os cs 4
           in case strptime (strip date_str) of
                Inl err \<Rightarrow> Inl err
              | Inr date \<Rightarrow>
                  (let is_online = re_search online_pattern description 0;
                       lot_number' = strip (re_sub_empty lot_pattern lot_number 0)
                   in Inr \<lparr>auction_house = Some (strip auction_house),
                           sale_date = Some date,
                           lot_number = Some lot_number',
                           is_online = is_online\<rparr>)))"

section \<open>The table: \<open>pandas.DataFrame\<close>\<close>

text \<open>
  A cell of the table: \<open>NaN\<close> where a record lacks the column's key, Python's
  \<open>None\<close>, a string, a date or a boolean. \<open>py_str\<close> is \<open>str(entry)\<close>.
\<close>

datatype cell = NaN | PyNone | Str string | DateCell date | BoolCell bool

definition digit_char :: "nat \<Rightarrow> char" where
  "digit_char n = char_of (48 + n mod 10)"

definition pad2 :: "nat \<Rightarrow> string" where
  "pad2 n = [digit_char (n div 10), digit_char n]"

definition pad4 :: "nat \<Rightarrow> string" where
  "pad4 n = [digit_char (n div 1000), digit_char (n div 100), digit_char (n div 10), digit_char n]"

fun py_str :: "cell \<Rightarrow> string" where
  "py_str NaN = ''nan''"
| "py_str PyNone = ''None''"
| "py_str (Str s) = s"
| "py_str (DateCell d) =
     pad4 (year d) @ ''-'' @ pad2 (month d) @ ''-'' @ pad2 (day d) @ '' 00:00:00''"
| "py_str (BoolCell b) = (if b then ''True'' else ''False'')"

text \<open>
  \<open>parse_sale_of_column\<close>: the bare \<open>except\<close> turns every exception of the \<open>try\<close>
  block into the fallback series.
\<close>

definition parse_sale_of_column :: "cell \<Rightarrow> sale" where
  "parse_sale_of_column entry =
     (case parse_sale_try (py_str entry) of
        Inl err \<Rightarrow> fallback
      | Inr series \<Rightarrow> series)"

text \<open>
  A data frame: the number of rows and the columns in order, each a name with one
  cell per row.
\<close>

record frame =
  n_rows :: nat
  columns :: "(string \<times> cell list) list"

text \<open>
  \<open>pd.DataFrame(results)\<close> on a list of dictionaries: the columns are the keys in
  the order in which they first appear, going through the records in order and
  through each record's keys in insertion order.
\<close>

fun add_keys :: "string list \<Rightarrow> string list \<Rightarrow> string list" where
  "add_keys cols [] = cols"
| "add_keys cols (k # ks) = add_keys (if k \<in> set cols then cols else cols @ [k]) ks"

definition frame_columns :: "artwork list \<Rightarrow> string list" where
  "frame_columns results = fold (\<lambda>r cols. add_keys cols (dict_keys r)) results []"

definition record_cell :: "string \<Rightarrow> artwork \<Rightarrow> cell" where
  "record_cell c r = (case map_of r c of None \<Rightarrow> NaN | Some v \<Rightarrow> Str v)"

definition DataFrame :: "artwork list \<Rightarrow> frame" where
  "DataFrame results =
     \<lparr>n_rows = length results,
      columns = map (\<lambda>c. (c, map (record_cell c) results)) (frame_columns results)\<rparr>"

text \<open>\<open>df[c]\<close> raises \<open>KeyError\<close> when there is no column \<open>c\<close>.\<close>

definition get_column :: "frame \<Rightarrow> string \<Rightarrow> error + cell list" where
  "get_column df c =
     (case map_of (columns df) c of
        None \<Rightarrow> Inl (KeyError c)
      | Some cells \<Rightarrow> Inr cells)"

text \<open>\<open>df[c] = cells\<close> replaces the column \<open>c\<close> or appends it as the last column.\<close>

fun put_column ::
  "string \<Rightarrow> cell list \<Rightarrow> (string \<times> cell list) list \<Rightarrow> (string \<times> cell list) list" where
  "put_column c cells [] = [(c, cells)]"
| "put_column c cells ((c', cells') # cols) =
     (if c' = c then (c, cells) # cols else (c', cells') # put_column c cells cols)"

definition set_column :: "string \<Rightarrow> cell list \<Rightarrow> frame \<Rightarrow> frame" where
  "set_column c cells df = df\<lparr>columns := put_column c cells (columns df)\<rparr>"

text \<open>
  \<open>df.to_csv(path, index=False)\<close>: the header line holds the column names, and
  each row holds its cell of every column; no index column is written.
\<close>

record table =
  header :: "string list"
  body :: "cell list list"

definition to_csv :: "frame \<Rightarrow> table" where
  "to_csv df =
     \<lparr>header = map fst (columns df),
      body = map (\<lambda>i. map (\<lambda>col. snd col ! i) (columns df)) [0 ..< n_rows df]\<rparr>"

section \<open>Pipeline driver: \<open>main\<close>\<close>

definition opt_cell :: "('a \<Rightarrow> cell) \<Rightarrow> 'a option \<Rightarrow> cell" where
  "opt_cell f v = (case v of None \<Rightarrow> PyNone | Some x \<Rightarrow> f x)"

text \<open>
  \<open>main\<close> on the opened documents, in the order of \<open>os.listdir\<close>. \<open>Inr\<close> is the
  table written to \<open>artnet_results.csv\<close>; \<open>Inl\<close> is an uncaught exception, raised
  before \<open>to_csv\<close> is reached.
\<close>

definition main :: "document list \<Rightarrow> error + table" where
  "main docs =
     (case process_files docs [] of
        Inl e \<Rightarrow> Inl e
      | Inr results \<Rightarrow>
          (let df = DataFrame results
           in case get_column df ''Sale of'' of
                Inl e \<Rightarrow> Inl e
              | Inr entries \<Rightarrow>
                  (let parsed_columns = map parse_sale_of_column entries;
                       df1 = set_column ''auction_house''
                               (map (\<lambda>x. opt_cell Str (auction_house x)) parsed_columns) df;
                       df2 = set_column ''sale_date''
                               (map (\<lambda>x. opt_cell DateCell (sale_date x)) parsed_columns) df1;
                       df3 = set_column ''lot_number''
                               (map (\<lambda>x. opt_cell Str (lot_number x)) parsed_columns) df2;
                       df4 = set_column ''is_online''
                               (map (\<lambda>x. BoolCell (is_online x)) parsed_columns) df3
                   in Inr (to_csv df4))))"

section \<open>Example documents\<close>

text \<open>A thin, wide horizontal bar drawn at height \<open>v\<close>.\<close>

definition bar :: "real \<Rightarrow> drawing" where
  "bar v = \<lparr>items = [Re \<lparr>y0 = v, y1 = v + 1 / 2, width = 500\<rparr>]\<rparr>"

text \<open>
  A page with a border bar at height 20 and bars at heights 100 and 400, whose text
  is \<open>t\<close> whatever the clip.
\<close>

definition one_entry_page :: "string \<Rightarrow> pdf_page" where
  "one_entry_page t =
     \<lparr>drawings = [bar 20, \<lparr>items = [Line, Re \<lparr>y0 = 60, y1 = 60, width = 500\<rparr>]\<rparr>,
                  bar 100, \<lparr>items = [Re \<lparr>y0 = 200, y1 = 300, width = 500\<rparr>]\<rparr>,
                  \<lparr>items = [Re \<lparr>y0 = 250, y1 = 250, width = 80\<rparr>]\<rparr>, bar 400],
      page_width = 612, page_height = 792, get_text = (\<lambda>c. t)\<rparr>"

definition nl :: string where
  "nl = [CHR 0x0A]"

definition jane_text :: string where
  "jane_text = ''Jane Doe'' @ nl @ ''Title: Untitled'' @ nl @
     ''Description: Oil on canvas'' @ nl @ ''more desc text''"

definition full_text :: string where
  "full_text = ''Jane Doe'' @ nl @ ''Title: Untitled'' @ nl @ ''Description: Oil'' @ nl @
     ''Medium: Oil on canvas'' @ nl @ ''Year of Work: 1999'' @ nl @ ''Size: 10 x 10 in.'' @ nl @
     ''Sale of: Christie's: Wednesday, May 15, 2024 [Lot 42] (Online)'' @ nl @
     ''Estimate: 100 USD'' @ nl @ ''Sold For: 120 USD'' @ nl @ ''Misc. Signed''"

text \<open>
  Three pages with a bar at height 300 on page 0 and one at height 100 on page 2;
  the text of a page depends on the clip.
\<close>

definition clip_page :: "drawing list \<Rightarrow> string \<Rightarrow> string \<Rightarrow> string \<Rightarrow> pdf_page" where
  "clip_page ds upper lower whole =
     \<lparr>drawings = ds, page_width = 612, page_height = 792,
      get_text = (\<lambda>c. case c of
                         None \<Rightarrow> whole
                       | Some r \<Rightarrow> if top r = 0 then upper else lower)\<rparr>"

definition cross_doc :: document where
  "cross_doc =
     [clip_page [bar 300] ''top of page 0'' '' Jane Doe '' ''all of page 0'',
      clip_page [] ''top of page 1'' ''bottom of page 1'' (''Title: Untitled'' @ nl),
      clip_page [bar 100] ''Medium: Oil'' ''bottom of page 2'' ''all of page 2'']"

text \<open>
  A page with bars at heights 100, 400 and 700: there is text between the first two
  and none between the last two.
\<close>

definition gap_page :: pdf_page where
  "gap_page =
     \<lparr>drawings = [bar 100, bar 400, bar 700], page_width = 612, page_height = 792,
      get_text = (\<lambda>c. case c of
                         None \<Rightarrow> jane_text
                       | Some r \<Rightarrow> if top r = 100 then jane_text else ''  '')\<rparr>"

section \<open>What the specification says, for comparison with the code\<close>

text \<open>
  The separator locator in the specification's words: a primitive is a candidate if
  its first drawn element is a rectangle whose two vertical bounds differ by less
  than 1 in absolute value and whose width exceeds 100; the candidate records the page
  and the rectangle's \<open>y0\<close>; candidates with \<open>y \<le> 50\<close> are dropped. The output
  lists the markers page by page, in the order of the primitives.
\<close>

definition candidate_spec :: "nat \<Rightarrow> drawing \<Rightarrow> separator option" where
  "candidate_spec n d =
     (case items d of
        [] \<Rightarrow> None
      | it # _ \<Rightarrow>
          (case it of
             Re rect \<Rightarrow>
               if \<bar>y1 rect - y0 rect\<bar> < 1 \<and> width rect > 100
               then Some \<lparr>page = n, y = y0 rect\<rparr> else None
           | _ \<Rightarrow> None))"

definition marker_spec :: "nat \<Rightarrow> drawing \<Rightarrow> separator option" where
  "marker_spec n d =
     (case candidate_spec n d of
        None \<Rightarrow> None
      | Some sep \<Rightarrow> if y sep > 50 then Some sep else None)"

definition separators_spec :: "document \<Rightarrow> separator list" where
  "separators_spec doc =
     concat (map (\<lambda>np. List.map_filter (marker_spec (fst np)) (drawings (snd np)))
               (enumerate 0 doc))"

text \<open>A document the decoder can produce: every drawing has at least one item.\<close>

definition drawings_nonempty :: "document \<Rightarrow> bool" where
  "drawings_nonempty doc = list_all (\<lambda>p. list_all (\<lambda>d. items d \<noteq> []) (drawings p)) doc"

text \<open>
  The region text of a span over several pages in the specification's words: the
  pieces are joined by newlines, each piece trimmed; the first is the start page
  clipped from the start marker to the bottom of the page, then every page strictly
  between in full, then the end page clipped from its top to the end marker.
\<close>

fun join_nl :: "string list \<Rightarrow> string" where
  "join_nl [] = []"
| "join_nl [p] = p"
| "join_nl (p # q # ps) = p @ [CHR 0x0A] @ join_nl (q # ps)"

definition region_pieces_spec :: "document \<Rightarrow> separator \<Rightarrow> separator \<Rightarrow> string list" where
  "region_pieces_spec doc start_sep end_sep =
     [strip (get_text (doc ! page start_sep)
        (Some \<lparr>left = 0, top = y start_sep,
               right = page_width (doc ! page start_sep),
               bottom = page_height (doc ! page start_sep)\<rparr>))] @
     map (\<lambda>n. strip (get_text (doc ! n) None)) [page start_sep + 1 ..< page end_sep] @
     [strip (get_text (doc ! page end_sep)
        (Some \<lparr>left = 0, top = 0,
               right = page_width (doc ! page end_sep),
               bottom = y end_sep\<rparr>))]"





text \<open>Two pages with a bar each and no text at all.\<close>

definition blank_cross_doc :: document where
  "blank_cross_doc =
     [clip_page [bar 300] [] '' '' [], clip_page [bar 100] '' '' [] []]"

section \<open>Key sets\<close>


section \<open>Label priority\<close>











section \<open>The field parser on the four-line example\<close>

text \<open>
  Claim C3. The field parser, applied to the four lines "Jane Doe", "Title: Untitled",
  "Description: Oil on canvas", "more desc text", returns the record with Artist
  "Jane Doe", Title "Untitled" and Description "Oil on canvas more desc text", and
  nothing else.
\<close>

theorem parse_text_jane_doe:
  "parse_text (''Jane Doe'' @ [CHR 0x0A] @ ''Title: Untitled'' @ [CHR 0x0A] @
               ''Description: Oil on canvas'' @ [CHR 0x0A] @ ''more desc text'') =
   Inr [(''Artist'', ''Jane Doe''), (''Title'', ''Untitled''),
        (''Description'', ''Oil on canvas more desc text'')]"
  by code_simp

section \<open>The separator locator against its specification\<close>

text \<open>The inner loop: it fails on a drawing with no item, and else appends the candidates.\<close>

lemma scan_drawings_eq:
  "scan_drawings n ds seps =
     (if list_all (\<lambda>d. items d \<noteq> []) ds
      then Inr (seps @ List.map_filter (candidate_spec n) ds)
      else Inl IndexError)"
proof (induction ds arbitrary: seps)
  case Nil
  then show ?case by (simp add: List.map_filter_simps)
next
  case (Cons d ds)
  show ?case
  proof (cases "items d")
    case Nil
    then show ?thesis by simp
  next
    case (Cons it its)
    show ?thesis
    proof (cases it)
      case (Re rect)
      with Cons have c: "candidate_spec n d =
          (if \<bar>y1 rect - y0 rect\<bar> < 1 \<and> width rect > 100
           then Some \<lparr>page = n, y = y0 rect\<rparr> else None)"
        by (simp add: candidate_spec_def)
      from Cons Re show ?thesis
        by (simp add: Cons.IH c List.map_filter_simps)
    next
      case Line
      with Cons have c: "candidate_spec n d = None"
        by (simp add: candidate_spec_def)
      from Cons Line show ?thesis
        by (simp add: Cons.IH c List.map_filter_simps)
    next
      case Curve
      with Cons have c: "candidate_spec n d = None"
        by (simp add: candidate_spec_def)
      from Cons Curve show ?thesis
        by (simp add: Cons.IH c List.map_filter_simps)
    next
      case Quad
      with Cons have c: "candidate_spec n d = None"
        by (simp add: candidate_spec_def)
      from Cons Quad show ?thesis
        by (simp add: Cons.IH c List.map_filter_simps)
    qed
  qed
qed

lemma scan_pages_eq:
  "scan_pages n ps seps =
     (if list_all (\<lambda>p. list_all (\<lambda>d. items d \<noteq> []) (drawings p)) ps
      then Inr (seps @ concat (map (\<lambda>np. List.map_filter (candidate_spec (fst np))
                                            (drawings (snd np))) (enumerate n ps)))
      else Inl IndexError)"
proof (induction ps arbitrary: n seps)
  case Nil
  then show ?case by simp
next
  case (Cons p ps)
  show ?case
    by (simp add: scan_drawings_eq Cons.IH)
qed

lemma filter_map_filter:
  "filter P (List.map_filter f xs) =
     List.map_filter (\<lambda>x. case f x of None \<Rightarrow> None | Some v \<Rightarrow> if P v then Some v else None) xs"
  by (induction xs) (auto simp: List.map_filter_simps split: option.splits)

lemma find_artnet_separators_eq:
  "find_artnet_separators doc =
     (if drawings_nonempty doc then Inr (separators_spec doc) else Inl IndexError)"
proof -
  have m: "(\<lambda>d. case candidate_spec n d of None \<Rightarrow> None
                 | Some v \<Rightarrow> if 50 < y v then Some v else None) = marker_spec n" for n
    by (rule ext) (simp add: marker_spec_def)
  show ?thesis
    by (simp add: find_artnet_separators_def scan_pages_eq drawings_nonempty_def
        separators_spec_def filter_concat filter_map_filter comp_def m)
qed

text \<open>
  Claim C5. For every document (whose drawings each have a first item), the output
  of the separator locator holds one marker for each drawing whose first item is a
  rectangle with absolute height difference below 1, width above 100 and \<open>y0\<close>
  above 50, in the order of the pages and drawings, and nothing else: a drawing
  whose first rectangle has \<open>y0 \<le> 50\<close>, width \<open>\<le> 100\<close> or height \<open>\<ge> 1\<close>
  gives no marker.
\<close>

theorem find_artnet_separators_spec:
  assumes "drawings_nonempty doc"
  shows "find_artnet_separators doc = Inr (separators_spec doc) \<and>
         (\<forall>n d rect its. items d = Re rect # its \<longrightarrow>
            marker_spec n d =
              (if \<bar>y1 rect - y0 rect\<bar> < 1 \<and> width rect > 100 \<and> y0 rect > 50
               then Some \<lparr>page = n, y = y0 rect\<rparr> else None))"
  using assms
  by (simp add: find_artnet_separators_eq marker_spec_def candidate_spec_def)

theorem find_artnet_separators_spec_witness:
  "drawings_nonempty [one_entry_page full_text] \<and>
   find_artnet_separators [one_entry_page full_text] =
     Inr [\<lparr>page = 0, y = 100\<rparr>, \<lparr>page = 0, y = 400\<rparr>] \<and>
   separators_spec [one_entry_page full_text] =
     [\<lparr>page = 0, y = 100\<rparr>, \<lparr>page = 0, y = 400\<rparr>]"
proof -
  have h: "drawings_nonempty [one_entry_page full_text]"
    by code_simp
  have v: "separators_spec [one_entry_page full_text] =
             [\<lparr>page = 0, y = 100\<rparr>, \<lparr>page = 0, y = 400\<rparr>]"
    by code_simp
  from find_artnet_separators_spec [OF h] h v show ?thesis by simp
qed

section \<open>The region text of a span over several pages\<close>

lemma join_nl_merge: "join_nl ((a @ [CHR 0x0A] @ b) # rest) = join_nl (a # b # rest)"
  by (cases rest) simp_all

lemma join_nl_snoc: "xs \<noteq> [] \<Longrightarrow> join_nl (xs @ [q]) = join_nl xs @ [CHR 0x0A] @ q"
  by (induction xs rule: join_nl.induct) simp_all

text \<open>The loop over the middle pages appends one trimmed page text per page number.\<close>

lemma middle_pages_join:
  assumes "\<forall>n \<in> set ns. n < length doc"
  shows "middle_pages doc ns acc =
           Inr (join_nl (acc # map (\<lambda>n. strip (get_text (doc ! n) None)) ns))"
  using assms
proof (induction ns arbitrary: acc)
  case Nil
  then show ?case by simp
next
  case (Cons n ns)
  from Cons.prems have "n < length doc" and rest: "\<forall>k \<in> set ns. k < length doc"
    by simp_all
  then have "middle_pages doc (n # ns) acc =
      middle_pages doc ns (acc @ [CHR 0x0A] @ strip (get_text (doc ! n) None))"
    by (simp add: get_page_def)
  also have "\<dots> = Inr (join_nl ((acc @ [CHR 0x0A] @ strip (get_text (doc ! n) None)) #
                 map (\<lambda>n. strip (get_text (doc ! n) None)) ns))"
    by (rule Cons.IH [OF rest])
  finally show ?case
    by (simp only: join_nl_merge list.map)
qed

text \<open>
  Claim C6. For every pair of separators with the start on an earlier page than the
  end (both pages in the document), the region text is the pieces of the
  specification joined by newlines: the trimmed text of the start page clipped from
  the start height to the bottom of the page, the trimmed full text of every page
  strictly between, in increasing order, and the trimmed text of the end page
  clipped from height 0 to the end height.
\<close>

theorem region_text_cross_page:
  assumes "page start_sep < page end_sep" and "page end_sep < length doc"
  shows "region_text doc start_sep end_sep =
           Inr (join_nl (region_pieces_spec doc start_sep end_sep))"
proof -
  let ?first = "strip (get_text (doc ! page start_sep)
        (Some \<lparr>left = 0, top = y start_sep,
               right = page_width (doc ! page start_sep),
               bottom = page_height (doc ! page start_sep)\<rparr>))"
  let ?mid = "map (\<lambda>n. strip (get_text (doc ! n) None)) [page start_sep + 1 ..< page end_sep]"
  let ?last = "strip (get_text (doc ! page end_sep)
        (Some \<lparr>left = 0, top = 0,
               right = page_width (doc ! page end_sep),
               bottom = y end_sep\<rparr>))"
  from assms have in_range: "\<forall>n \<in> set [Suc (page start_sep) ..< page end_sep]. n < length doc"
    by simp
  have mid: "middle_pages doc [Suc (page start_sep) ..< page end_sep] ?first =
               Inr (join_nl (?first #
                 map (\<lambda>n. strip (get_text (doc ! n) None)) [Suc (page start_sep) ..< page end_sep]))"
    by (rule middle_pages_join [OF in_range])
  from assms have "region_text doc start_sep end_sep =
      Inr (join_nl (?first # ?mid) @ [CHR 0x0A] @ ?last)"
    by (simp add: region_text_def get_page_def mid del: upt_Suc)
  also have "join_nl (?first # ?mid) @ [CHR 0x0A] @ ?last = join_nl ((?first # ?mid) @ [?last])"
    by (rule join_nl_snoc [symmetric]) simp
  finally show ?thesis
    by (simp add: region_pieces_spec_def)
qed

theorem region_text_cross_page_witness:
  "page \<lparr>page = 0, y = 300\<rparr> < page \<lparr>page = 2, y = 100\<rparr> \<and>
   page \<lparr>page = 2, y = 100\<rparr> < length cross_doc \<and>
   region_text cross_doc \<lparr>page = 0, y = 300\<rparr> \<lparr>page = 2, y = 100\<rparr> =
     Inr (''Jane Doe'' @ [CHR 0x0A] @ ''Title: Untitled'' @ [CHR 0x0A] @ ''Medium: Oil'')"
proof -
  have h1: "page \<lparr>page = 0, y = 300\<rparr> < page \<lparr>page = 2, y = 100\<rparr>"
    by simp
  have h2: "page \<lparr>page = 2, y = 100\<rparr> < length cross_doc"
    by (simp add: cross_doc_def)
  have v: "join_nl (region_pieces_spec cross_doc \<lparr>page = 0, y = 300\<rparr> \<lparr>page = 2, y = 100\<rparr>) =
             ''Jane Doe'' @ [CHR 0x0A] @ ''Title: Untitled'' @ [CHR 0x0A] @ ''Medium: Oil''"
    by code_simp
  from region_text_cross_page [OF h1 h2] h1 h2 v show ?thesis
    by simp
qed

section \<open>Empty spans\<close>

text \<open>Every marker that the locator returns lies on a page of the document.\<close>

lemma marker_spec_page: "marker_spec n d = Some sep \<Longrightarrow> page sep = n"
  by (auto simp: marker_spec_def candidate_spec_def
           split: option.splits list.splits item.splits if_splits)

lemma map_filter_memD:
  "v \<in> set (List.map_filter f xs) \<Longrightarrow> \<exists>x \<in> set xs. f x = Some v"
  by (auto simp: List.map_filter_def)

lemma separators_spec_page:
  assumes "sep \<in> set (separators_spec doc)"
  shows "page sep < length doc"
proof -
  from assms obtain np where np: "np \<in> set (enumerate 0 doc)"
    and m: "sep \<in> set (List.map_filter (marker_spec (fst np)) (drawings (snd np)))"
    by (auto simp: separators_spec_def)
  from map_filter_memD [OF m] obtain d where d: "marker_spec (fst np) d = Some sep"
    by blast
  from np have "fst np < length doc"
    by (simp add: in_set_enumerate_eq)
  with marker_spec_page [OF d] show ?thesis by simp
qed

lemma found_pages_in_range:
  assumes "find_artnet_separators doc = Inr seps" and "sep \<in> set seps"
  shows "page sep < length doc"
  using assms separators_spec_page
  by (auto simp: find_artnet_separators_eq split: if_splits)

text \<open>Between two markers on pages of the document the text extraction raises nothing.\<close>

lemma region_text_total:
  assumes "page start_sep < length doc" and "page end_sep < length doc"
  shows "\<exists>t. region_text doc start_sep end_sep = Inr t"
proof (cases "page start_sep = page end_sep")
  case True
  with assms show ?thesis
    by (simp add: region_text_def get_page_def)
next
  case False
  from assms have "\<forall>n \<in> set [Suc (page start_sep) ..< page end_sep]. n < length doc"
    by simp
  from middle_pages_join [OF this]
  have "\<exists>t. middle_pages doc [Suc (page start_sep) ..< page end_sep] acc = Inr t" for acc
    by blast
  then obtain t where
    "middle_pages doc [Suc (page start_sep) ..< page end_sep]
       (strip (get_text (doc ! page start_sep)
          (Some \<lparr>left = 0, top = y start_sep,
                 right = page_width (doc ! page start_sep),
                 bottom = page_height (doc ! page start_sep)\<rparr>))) = Inr t"
    by blast
  with False assms show ?thesis
    by (simp add: region_text_def get_page_def del: upt_Suc)
qed

text \<open>A span over several pages always holds the newline that joins its pieces.\<close>

lemma region_text_cross_nonempty:
  assumes "page start_sep \<noteq> page end_sep"
  shows "region_text doc start_sep end_sep \<noteq> Inr []"
  using assms
  by (auto simp: region_text_def split: sum.splits)

text \<open>
  So a span over two pages without any text is not empty for the parser: its text is
  one newline, and the result is a record without keys.
\<close>

lemma blank_cross_page_span:
  "find_artnet_separators blank_cross_doc = Inr [\<lparr>page = 0, y = 300\<rparr>, \<lparr>page = 1, y = 100\<rparr>] \<and>
   region_text blank_cross_doc \<lparr>page = 0, y = 300\<rparr> \<lparr>page = 1, y = 100\<rparr> = Inr [CHR 0x0A] \<and>
   process_document blank_cross_doc [] = Inr [[]]"
  by code_simp

lemma get_artwork_info_empty:
  "region_text doc start_sep end_sep = Inr [] \<Longrightarrow>
   get_artwork_info doc start_sep end_sep = Inl UnboundLocalError"
  by (simp add: get_artwork_info_def parse_text_def)

lemma get_artwork_info_nonempty:
  "region_text doc start_sep end_sep = Inr t \<Longrightarrow> t \<noteq> [] \<Longrightarrow>
   \<exists>a. get_artwork_info doc start_sep end_sep = Inr a"
  by (simp add: get_artwork_info_def parse_text_def Let_def)

lemma get_artwork_info_errors:
  assumes "page start_sep < length doc" and "page end_sep < length doc"
    and "get_artwork_info doc start_sep end_sep = Inl err"
  shows "err = UnboundLocalError"
proof -
  from region_text_total [OF assms(1,2)]
  obtain t where "region_text doc start_sep end_sep = Inr t" by blast
  with assms(3) show ?thesis
    by (auto simp: get_artwork_info_def parse_text_def Let_def split: if_splits)
qed

text \<open>The loop over the pairs stops at the first exception.\<close>

lemma run_pairs_unbound:
  assumes "\<forall>j \<in> set js. \<forall>err. get_artwork_info doc (seps ! j) (seps ! (j + 1)) = Inl err
             \<longrightarrow> err = UnboundLocalError"
    and "\<exists>j \<in> set js. get_artwork_info doc (seps ! j) (seps ! (j + 1)) = Inl UnboundLocalError"
  shows "run_pairs doc seps js rs = Inl UnboundLocalError"
  using assms
proof (induction js arbitrary: rs)
  case Nil
  then show ?case by simp
next
  case (Cons j js)
  show ?case
  proof (cases "get_artwork_info doc (seps ! j) (seps ! (j + 1))")
    case (Inl err)
    with Cons.prems(1) have "err = UnboundLocalError" by simp
    with Inl show ?thesis by simp
  next
    case (Inr a)
    with Cons.prems have "\<forall>j \<in> set js. \<forall>err.
        get_artwork_info doc (seps ! j) (seps ! (j + 1)) = Inl err \<longrightarrow> err = UnboundLocalError"
      and "\<exists>j \<in> set js. get_artwork_info doc (seps ! j) (seps ! (j + 1)) = Inl UnboundLocalError"
      by auto
    from Cons.IH [OF this] Inr show ?thesis by simp
  qed
qed

lemma run_pairs_length:
  "run_pairs doc seps js rs = Inr rs' \<Longrightarrow> length rs' = length rs + length js"
  by (induction js arbitrary: rs) (auto split: sum.splits)

lemma run_pairs_succeeds:
  assumes "\<forall>j \<in> set js. \<exists>a. get_artwork_info doc (seps ! j) (seps ! (j + 1)) = Inr a"
  shows "\<exists>rs'. run_pairs doc seps js rs = Inr rs'"
  using assms
  by (induction js arbitrary: rs) auto

text \<open>
  The entry count where no exception is raised: a document with \<open>N\<close> separators and
  no empty span adds \<open>N - 1\<close> records, and none when there is no separator.
\<close>

lemma process_document_count:
  assumes "find_artnet_separators doc = Inr seps"
    and "\<forall>i. i + 1 < length seps \<longrightarrow> region_text doc (seps ! i) (seps ! (i + 1)) \<noteq> Inr []"
  shows "\<exists>rs'. process_document doc rs = Inr rs' \<and> length rs' = length rs + (length seps - 1)"
proof -
  have "\<exists>a. get_artwork_info doc (seps ! j) (seps ! (j + 1)) = Inr a"
    if "j \<in> set [0 ..< length seps - 1]" for j
  proof -
    from that have j: "j + 1 < length seps" by auto
    then have "page (seps ! j) < length doc" "page (seps ! (j + 1)) < length doc"
      using found_pages_in_range [OF assms(1)] by simp_all
    from region_text_total [OF this]
    obtain t where t: "region_text doc (seps ! j) (seps ! (j + 1)) = Inr t" by blast
    with assms(2) j have "t \<noteq> []" by auto
    from get_artwork_info_nonempty [OF t this] show ?thesis .
  qed
  then have "\<forall>j \<in> set [0 ..< length seps - 1].
      \<exists>a. get_artwork_info doc (seps ! j) (seps ! (j + 1)) = Inr a"
    by blast
  from run_pairs_succeeds [OF this]
  obtain rs' where r: "run_pairs doc seps [0 ..< length seps - 1] rs = Inr rs'" by blast
  from run_pairs_length [OF r] r assms(1) show ?thesis
    by (simp add: process_document_def)
qed

text \<open>
  Claim C9. Whenever the region text between two separators is the empty string,
  \<open>get_artwork_info\<close> returns no record but raises \<open>UnboundLocalError\<close>; and when
  this happens for two adjacent separators of a document, processing the document
  (and with it the run) ends in that exception instead of adding an empty record.
\<close>

theorem empty_span_raises:
  "(region_text doc start_sep end_sep = Inr [] \<longrightarrow>
      get_artwork_info doc start_sep end_sep = Inl UnboundLocalError) \<and>
   (find_artnet_separators doc = Inr seps \<and> i + 1 < length seps \<and>
    region_text doc (seps ! i) (seps ! (i + 1)) = Inr [] \<longrightarrow>
      process_document doc results = Inl UnboundLocalError \<and>
      process_files (doc # docs) results = Inl UnboundLocalError \<and>
      main (doc # docs) = Inl UnboundLocalError)"
proof -
  have doc_fails: "process_document doc rs = Inl UnboundLocalError"
    if f: "find_artnet_separators doc = Inr seps" and i: "i + 1 < length seps"
      and e: "region_text doc (seps ! i) (seps ! (i + 1)) = Inr []" for rs
  proof -
    have 1: "\<forall>j \<in> set [0 ..< length seps - 1]. \<forall>err.
        get_artwork_info doc (seps ! j) (seps ! (j + 1)) = Inl err \<longrightarrow> err = UnboundLocalError"
    proof (intro ballI allI impI)
      fix j err
      assume j: "j \<in> set [0 ..< length seps - 1]"
        and g: "get_artwork_info doc (seps ! j) (seps ! (j + 1)) = Inl err"
      from j have "j + 1 < length seps" by auto
      then have "page (seps ! j) < length doc" "page (seps ! (j + 1)) < length doc"
        using found_pages_in_range [OF f] by simp_all
      from get_artwork_info_errors [OF this g] show "err = UnboundLocalError" .
    qed
    from i have "i \<in> set [0 ..< length seps - 1]" by auto
    with get_artwork_info_empty [OF e]
    have 2: "\<exists>j \<in> set [0 ..< length seps - 1].
        get_artwork_info doc (seps ! j) (seps ! (j + 1)) = Inl UnboundLocalError"
      by blast
    from run_pairs_unbound [OF 1 2] f show ?thesis
      by (simp add: process_document_def)
  qed
  have "process_document doc results = Inl UnboundLocalError \<and>
      process_files (doc # docs) results = Inl UnboundLocalError \<and>
      main (doc # docs) = Inl UnboundLocalError"
    if "find_artnet_separators doc = Inr seps \<and> i + 1 < length seps \<and>
        region_text doc (seps ! i) (seps ! (i + 1)) = Inr []"
    using that doc_fails [of results] doc_fails [of "[]"]
    by (simp add: main_def)
  with get_artwork_info_empty show ?thesis by blast
qed

theorem empty_span_raises_witness:
  "region_text [one_entry_page ''  ''] \<lparr>page = 0, y = 100\<rparr> \<lparr>page = 0, y = 400\<rparr> = Inr [] \<and>
   find_artnet_separators [one_entry_page ''  ''] =
     Inr [\<lparr>page = 0, y = 100\<rparr>, \<lparr>page = 0, y = 400\<rparr>] \<and>
   get_artwork_info [one_entry_page ''  ''] \<lparr>page = 0, y = 100\<rparr> \<lparr>page = 0, y = 400\<rparr> =
     Inl UnboundLocalError \<and>
   process_document [one_entry_page ''  ''] [] = Inl UnboundLocalError \<and>
   main [[one_entry_page ''  ''], [one_entry_page full_text]] = Inl UnboundLocalError"
proof -
  have h1: "region_text [one_entry_page ''  ''] \<lparr>page = 0, y = 100\<rparr> \<lparr>page = 0, y = 400\<rparr> = Inr []"
    by code_simp
  have h2: "find_artnet_separators [one_entry_page ''  ''] =
      Inr [\<lparr>page = 0, y = 100\<rparr>, \<lparr>page = 0, y = 400\<rparr>]"
    by code_simp
  from empty_span_raises [of "[one_entry_page ''  '']" "\<lparr>page = 0, y = 100\<rparr>"
      "\<lparr>page = 0, y = 400\<rparr>" "[\<lparr>page = 0, y = 100\<rparr>, \<lparr>page = 0, y = 400\<rparr>]" 0 "[]"
      "[[one_entry_page full_text]]"] h1 h2
  show ?thesis by simp
qed

section \<open>The entry count on a document with an empty span\<close>

text \<open>
  Claim C1. A document with \<open>N\<close> separators should give \<open>N - 1\<close> records. On the
  one-page document with three separators and no text between the last two, the
  locator returns the three separators, the first span has text, and the run ends in
  \<open>UnboundLocalError\<close> with no record instead of two.
\<close>

theorem entry_count_empty_span:
  "find_artnet_separators [gap_page] =
     Inr [\<lparr>page = 0, y = 100\<rparr>, \<lparr>page = 0, y = 400\<rparr>, \<lparr>page = 0, y = 700\<rparr>] \<and>
   region_text [gap_page] \<lparr>page = 0, y = 100\<rparr> \<lparr>page = 0, y = 400\<rparr> = Inr jane_text \<and>
   region_text [gap_page] \<lparr>page = 0, y = 400\<rparr> \<lparr>page = 0, y = 700\<rparr> = Inr [] \<and>
   process_document [gap_page] [] = Inl UnboundLocalError \<and>
   main [[gap_page]] = Inl UnboundLocalError"
  by code_simp

section \<open>The fallback of the sale-field decomposer\<close>

text \<open>
  Claim C2. For every entry, if the pattern does not match \<open>str(entry)\<close>, or it
  matches and \<open>strptime\<close> fails on the trimmed date text, or any exception is
  raised in the \<open>try\<close> block, the result is the fallback with auction house, sale
  date and lot number null and the online flag false. Every result is either this
  fallback or has all three of auction house, sale date and lot number set.
\<close>

theorem sale_fallback_atomic:
  "fallback = \<lparr>auction_house = None, sale_date = None, lot_number = None, is_online = False\<rparr> \<and>
   (re_match sale_pattern (py_str entry) = None \<longrightarrow> parse_sale_of_column entry = fallback) \<and>
   (re_match sale_pattern (py_str entry) = Some (os, cs, e) \<and>
    strptime (strip (match_group (py_str entry) os cs 2)) = Inl err \<longrightarrow>
      parse_sale_of_column entry = fallback) \<and>
   (parse_sale_try (py_str entry) = Inl err \<longrightarrow> parse_sale_of_column entry = fallback) \<and>
   (parse_sale_of_column entry = fallback \<or>
    (\<exists>house date lot online. parse_sale_of_column entry =
       \<lparr>auction_house = Some house, sale_date = Some date,
        lot_number = Some lot, is_online = online\<rparr>))"
proof -
  have a: "parse_sale_of_column entry = fallback"
    if "re_match sale_pattern (py_str entry) = None"
    using that by (simp add: parse_sale_of_column_def parse_sale_try_def)
  have b: "parse_sale_of_column entry = fallback"
    if "re_match sale_pattern (py_str entry) = Some (os, cs, e) \<and>
        strptime (strip (match_group (py_str entry) os cs 2)) = Inl err"
    using that by (simp add: parse_sale_of_column_def parse_sale_try_def Let_def)
  have c: "parse_sale_of_column entry = fallback"
    if "parse_sale_try (py_str entry) = Inl err"
    using that by (simp add: parse_sale_of_column_def)
  have d: "parse_sale_of_column entry = fallback \<or>
    (\<exists>house date lot online. parse_sale_of_column entry =
       \<lparr>auction_house = Some house, sale_date = Some date,
        lot_number = Some lot, is_online = online\<rparr>)"
    by (auto simp: parse_sale_of_column_def parse_sale_try_def Let_def
             split: option.splits sum.splits prod.splits)
  from a b c d show ?thesis
    by (simp add: fallback_def)
qed

theorem sale_fallback_atomic_witness:
  "re_match sale_pattern (py_str (Str ''N/A'')) = None \<and>
   parse_sale_of_column (Str ''N/A'') = fallback \<and>
   re_match sale_pattern
     (py_str (Str ''Christie's: Wednesday, February 30, 2024 [Lot 42] (Online)'')) =
     Some ([(4, 49), (3, 42), (2, 12), (1, 0)], [(4, 58), (3, 48), (2, 40), (1, 10)], 58) \<and>
   strptime (strip (match_group
     (py_str (Str ''Christie's: Wednesday, February 30, 2024 [Lot 42] (Online)''))
     [(4, 49), (3, 42), (2, 12), (1, 0)] [(4, 58), (3, 48), (2, 40), (1, 10)] 2)) =
     Inl ValueError \<and>
   parse_sale_try
     (py_str (Str ''Christie's: Wednesday, February 30, 2024 [Lot 42] (Online)'')) =
     Inl ValueError \<and>
   parse_sale_of_column
     (Str ''Christie's: Wednesday, February 30, 2024 [Lot 42] (Online)'') = fallback"
proof -
  have h1: "re_match sale_pattern (py_str (Str ''N/A'')) = None"
    by code_simp
  have h2: "re_match sale_pattern
     (py_str (Str ''Christie's: Wednesday, February 30, 2024 [Lot 42] (Online)'')) =
     Some ([(4, 49), (3, 42), (2, 12), (1, 0)], [(4, 58), (3, 48), (2, 40), (1, 10)], 58)"
    by code_simp
  have h3: "strptime (strip (match_group
     (py_str (Str ''Christie's: Wednesday, February 30, 2024 [Lot 42] (Online)''))
     [(4, 49), (3, 42), (2, 12), (1, 0)] [(4, 58), (3, 48), (2, 40), (1, 10)] 2)) =
     Inl ValueError"
    by code_simp
  have h4: "parse_sale_try
     (py_str (Str ''Christie's: Wednesday, February 30, 2024 [Lot 42] (Online)'')) =
     Inl ValueError"
    by code_simp
  from sale_fallback_atomic [of "Str ''N/A''"]
    sale_fallback_atomic [of
      "Str ''Christie's: Wednesday, February 30, 2024 [Lot 42] (Online)''"
      "[(4, 49), (3, 42), (2, 12), (1, 0)]" "[(4, 58), (3, 48), (2, 40), (1, 10)]" 58 ValueError]
    h1 h2 h3 h4
  show ?thesis
    by simp
qed

section \<open>The sale-field decomposer on the Christie's example\<close>

text \<open>
  Claim C7. The sale-field decomposer, applied to the string
  "Christie's: Wednesday, May 15, 2024 [Lot 42] (Online)", returns the auction house
  "Christie's", the sale date 2024-05-15, the lot number "42" and the online flag set.
\<close>

theorem parse_sale_christies:
  "parse_sale_of_column (Str ''Christie's: Wednesday, May 15, 2024 [Lot 42] (Online)'') =
   \<lparr>auction_house = Some ''Christie's'',
    sale_date = Some \<lparr>year = 2024, month = 5, day = 15\<rparr>,
    lot_number = Some ''42'',
    is_online = True\<rparr>"
  by code_simp

section \<open>The columns of the table\<close>

lemma set_add_keys: "set (add_keys cols ks) = set cols \<union> set ks"
  by (induction ks arbitrary: cols) auto


lemma set_fold_add_keys:
  "set (fold (\<lambda>r cols. add_keys cols (dict_keys r)) results cols0) =
     set cols0 \<union> (\<Union>r \<in> set results. set (dict_keys r))"
  by (induction results arbitrary: cols0) (auto simp: set_add_keys)


lemma set_frame_columns:
  "set (frame_columns results) = (\<Union>r \<in> set results. set (dict_keys r))"
  by (simp add: frame_columns_def set_fold_add_keys)







text \<open>Reading and adding a column.\<close>

lemma get_column_DataFrame:
  "get_column (DataFrame results) c =
     (if c \<in> set (frame_columns results)
      then Inr (map (record_cell c) results) else Inl (KeyError c))"
proof -
  have "map_of (map (\<lambda>c. (c, map (record_cell c) results)) cols) c =
          (if c \<in> set cols then Some (map (record_cell c) results) else None)" for cols
    by (induction cols) auto
  then show ?thesis
    by (simp add: get_column_def DataFrame_def)
qed


text \<open>
  Claim C10. If the documents are processed without an exception and no accumulated
  record has the key "Sale of" (in particular if there is no record at all),
  \<open>main\<close> ends in \<open>KeyError\<close> for the column "Sale of", raised by
  \<open>df['Sale of']\<close>, and writes no table.
\<close>

theorem main_without_sale_of:
  assumes "process_files docs [] = Inr results"
    and "\<forall>r \<in> set results. ''Sale of'' \<notin> set (dict_keys r)"
  shows "main docs = Inl (KeyError ''Sale of'')"
proof -
  from assms(2) have "''Sale of'' \<notin> set (frame_columns results)"
    by (simp add: set_frame_columns)
  then have "get_column (DataFrame results) ''Sale of'' = Inl (KeyError ''Sale of'')"
    by (simp add: get_column_DataFrame)
  with assms(1) show ?thesis
    by (simp add: main_def)
qed

theorem main_without_sale_of_witness:
  "process_files [[one_entry_page jane_text]] [] =
     Inr [[(''Artist'', ''Jane Doe''), (''Title'', ''Untitled''),
           (''Description'', ''Oil on canvas more desc text'')]] \<and>
   main [[one_entry_page jane_text]] = Inl (KeyError ''Sale of'') \<and>
   process_files [] [] = Inr [] \<and>
   main [] = Inl (KeyError ''Sale of'')"
proof -
  have h: "process_files [[one_entry_page jane_text]] [] =
     Inr [[(''Artist'', ''Jane Doe''), (''Title'', ''Untitled''),
           (''Description'', ''Oil on canvas more desc text'')]]"
    by code_simp
  have k: "\<forall>r \<in> set [[(''Artist'', ''Jane Doe''), (''Title'', ''Untitled''),
           (''Description'', ''Oil on canvas more desc text'')]].
             ''Sale of'' \<notin> set (dict_keys r)"
    by (simp add: dict_keys_def)
  have e: "process_files [] [] = Inr []"
    by simp
  from main_without_sale_of [OF h k] main_without_sale_of [OF e] h e
  show ?thesis by simp
qed

section \<open>The keys of a record\<close>












section \<open>The column order of the output table\<close>




end
